theory Spec2Isabelle
  imports Main "HOL-Library.Word"
begin

unbundle bit_operations_syntax

section \<open>JavaScript values\<close>

text \<open>
  A JavaScript string is a sequence of UTF-16 code units, and the regular expression of
  the name generator (no \<open>u\<close> flag) works on code units. A \<open>Buffer\<close> is a sequence of bytes.
  \<open>js\<close> embeds an ASCII literal of the source.
\<close>

type_synonym code_unit = "16 word"
type_synonym jsstring = "code_unit list"
type_synonym bytes = "8 word list"

definition js :: "string \<Rightarrow> jsstring" where
  "js s = map of_char s"

text \<open>
  The values that reach the handlers through \<open>req.body\<close>, through the gateway's result and
  through a rejected promise. A number is its IEEE-754 binary64 bit pattern; an object is
  its list of own properties.
\<close>

datatype jsval =
    JUndefined
  | JNull
  | JBool bool
  | JNum "64 word"
  | JStr jsstring
  | JArr "jsval list"
  | JObj "(jsstring \<times> jsval) list"

definition is_zero :: "64 word \<Rightarrow> bool" where
  \<comment> \<open>\<open>+0\<close> and \<open>-0\<close>: everything but the sign bit is clear\<close>
  "is_zero w = (w AND 0x7FFFFFFFFFFFFFFF = 0)"

definition is_NaN :: "64 word \<Rightarrow> bool" where
  \<comment> \<open>exponent all ones, fraction not zero\<close>
  "is_NaN w = (w AND 0x7FF0000000000000 = 0x7FF0000000000000 \<and> w AND 0x000FFFFFFFFFFFFF \<noteq> 0)"

text \<open>\<open>ToBoolean\<close>: what \<open>!v\<close>, \<open>v || d\<close> and \<open>if (v)\<close> test.\<close>

fun truthy :: "jsval \<Rightarrow> bool" where
  "truthy JUndefined = False"
| "truthy JNull = False"
| "truthy (JBool b) = b"
| "truthy (JNum w) = (\<not> is_zero w \<and> \<not> is_NaN w)"
| "truthy (JStr s) = (s \<noteq> [])"
| "truthy (JArr xs) = True"
| "truthy (JObj kvs) = True"

definition nullish :: "jsval \<Rightarrow> bool" where
  "nullish v = (v = JUndefined \<or> v = JNull)"

text \<open>
  Reading one of the properties \<open>message\<close>, \<open>url\<close>, \<open>fileId\<close>, the only ones the source
  reads. On an object it is the property's value, or \<open>undefined\<close> when there is none; a
  primitive or an array has none of the three. On \<open>undefined\<close> and \<open>null\<close> the read throws
  a TypeError, which is \<open>None\<close> in \<open>read_prop\<close>; \<open>v?.k\<close> gives \<open>undefined\<close> there instead.
\<close>

fun lookup :: "jsval \<Rightarrow> jsstring \<Rightarrow> jsval" where
  "lookup (JObj kvs) k = (case map_of kvs k of None \<Rightarrow> JUndefined | Some v \<Rightarrow> v)"
| "lookup v k = JUndefined"

definition read_prop :: "jsval \<Rightarrow> jsstring \<Rightarrow> jsval option" where
  "read_prop v k = (if nullish v then None else Some (lookup v k))"

definition optional_prop :: "jsval \<Rightarrow> jsstring \<Rightarrow> jsval" where
  "optional_prop v k = (if nullish v then JUndefined else lookup v k)"

definition startsWith :: "jsstring \<Rightarrow> jsstring \<Rightarrow> bool" where
  "startsWith s p = (take (length p) s = p)"

section \<open>Configuration\<close>

text \<open>
  The environment variables the handlers depend on; \<open>None\<close> is an unset variable.
  \<open>or_default v d\<close> is \<open>v || d\<close> on a string that may be undefined.
\<close>

record config =
  env_ALLOW_ORIGIN :: "jsstring option"
  env_IMAGEKIT_FOLDER :: "jsstring option"

definition or_default :: "jsstring option \<Rightarrow> jsstring \<Rightarrow> jsstring" where
  "or_default v d = (case v of None \<Rightarrow> d | Some s \<Rightarrow> if s = [] then d else s)"

definition ALLOW_ORIGIN :: "config \<Rightarrow> jsstring" where
  "ALLOW_ORIGIN cfg = or_default (env_ALLOW_ORIGIN cfg) (js ''http://localhost:3000'')"

definition IMAGEKIT_FOLDER :: "config \<Rightarrow> jsstring" where
  "IMAGEKIT_FOLDER cfg = or_default (env_IMAGEKIT_FOLDER cfg) (js ''/product-images'')"

text \<open>\<open>s.split(',')\<close>: the pieces between the commas, one piece for a string without any.\<close>

fun split_comma :: "jsstring \<Rightarrow> jsstring list" where
  "split_comma [] = [[]]"
| "split_comma (u # us) =
     (if u = of_char CHR '','' then [] # split_comma us
      else (case split_comma us of [] \<Rightarrow> [[u]] | w # ws \<Rightarrow> (u # w) # ws))"

definition is_space :: "code_unit \<Rightarrow> bool" where
  \<comment> \<open>WhiteSpace and LineTerminator of ECMAScript, which \<open>trim\<close> strips\<close>
  "is_space u = (u \<in> {0x0009, 0x000A, 0x000B, 0x000C, 0x000D, 0x0020, 0x00A0, 0x1680,
       0x2028, 0x2029, 0x202F, 0x205F, 0x3000, 0xFEFF} \<or> (0x2000 \<le> u \<and> u \<le> 0x200A))"

definition trim :: "jsstring \<Rightarrow> jsstring" where
  "trim s = rev (dropWhile is_space (rev (dropWhile is_space s)))"

definition allowedOrigins :: "config \<Rightarrow> jsstring list" where
  "allowedOrigins cfg =
     filter (\<lambda>s. s \<noteq> []) (map trim (split_comma (or_default (Some (ALLOW_ORIGIN cfg)) [])))"

section \<open>Origin allow-list\<close>

datatype app_error =
    Error jsstring
  | MulterError jsstring jsstring

definition header_value :: "jsstring option \<Rightarrow> jsval" where
  \<comment> \<open>\<open>req.headers.origin\<close>: a string, or \<open>undefined\<close> when the header is absent\<close>
  "header_value h = (case h of None \<Rightarrow> JUndefined | Some s \<Rightarrow> JStr s)"

text \<open>
  \<open>corsOptions.origin\<close>, with \<open>callback(null, true)\<close> as \<open>Inr True\<close> and \<open>callback(err)\<close> as
  \<open>Inl err\<close>. It is only reached with a string once \<open>!origin\<close> has failed.
\<close>

definition corsOptions_origin :: "jsstring list \<Rightarrow> jsstring option \<Rightarrow> app_error + bool" where
  "corsOptions_origin allowed origin =
     (if \<not> truthy (header_value origin) then Inr True
      else if (case origin of None \<Rightarrow> False | Some s \<Rightarrow> s \<in> set allowed) then Inr True
      else Inl (Error (js ''Not allowed by CORS'')))"

record cors_options =
  methods :: "jsstring list"
  allowedHeaders :: "jsstring list"
  credentials :: bool

definition corsOptions :: cors_options where
  "corsOptions =
     \<lparr>methods = [js ''GET'', js ''POST'', js ''DELETE'', js ''OPTIONS''],
      allowedHeaders = [js ''Content-Type'', js ''Authorization''],
      credentials = False\<rparr>"

section \<open>Name generator\<close>

text \<open>The character class of \<open>/[^a-zA-Z0-9._-]/g\<close>, in the order it is written.\<close>

definition char_class :: "code_unit \<Rightarrow> bool" where
  "char_class u =
     ((of_char CHR ''a'' \<le> u \<and> u \<le> of_char CHR ''z'') \<or>
      (of_char CHR ''A'' \<le> u \<and> u \<le> of_char CHR ''Z'') \<or>
      (of_char CHR ''0'' \<le> u \<and> u \<le> of_char CHR ''9'') \<or>
      u = of_char CHR ''.'' \<or> u = of_char CHR ''_'' \<or> u = of_char CHR ''-'')"

text \<open>
  \<open>replace\<close> with a global pattern scans the string from the left; the negated class
  matches exactly one code unit, so each step either replaces the unit it stands on or
  copies it.
\<close>

fun replace_unsafe :: "jsstring \<Rightarrow> jsstring" where
  "replace_unsafe [] = []"
| "replace_unsafe (u # us) =
     (if \<not> char_class u then of_char CHR ''_'' # replace_unsafe us else u # replace_unsafe us)"

definition safeName :: "jsstring \<Rightarrow> jsstring" where
  "safeName originalname = replace_unsafe originalname"

text \<open>
  \<open>Date.now()\<close> is an integer number of milliseconds of magnitude at most 8.64e15, so the
  template literal prints it in plain decimal, with a sign when it is negative.
\<close>

definition digit :: "nat \<Rightarrow> code_unit" where
  "digit d = of_char CHR ''0'' + of_nat d"

function decimal :: "nat \<Rightarrow> jsstring" where
  "decimal n = (if n < 10 then [digit n] else decimal (n div 10) @ [digit (n mod 10)])"
  by pat_completeness auto
termination
  by (relation "measure (\<lambda>n. n)") auto

declare decimal.simps [simp del]

definition number_toString :: "int \<Rightarrow> jsstring" where
  "number_toString n =
     (if n < 0 then of_char CHR ''-'' # decimal (nat (- n)) else decimal (nat n))"

text \<open>The two effects of naming: the clock and the UUID source, read once per upload.\<close>

record env =
  now :: int
  uuidv4 :: jsstring

definition fileName :: "env \<Rightarrow> jsstring \<Rightarrow> jsstring" where
  "fileName e originalname =
     number_toString (now e) @ js ''-'' @ uuidv4 e @ js ''-'' @ safeName originalname"

text \<open>
  What the \<open>uuid\<close> package promises of \<open>v4()\<close>, as far as the storage key needs it:
  36 code units, each a lower-case hexadecimal digit or a hyphen.
\<close>

definition is_hex :: "code_unit \<Rightarrow> bool" where
  "is_hex u = ((of_char CHR ''0'' \<le> u \<and> u \<le> of_char CHR ''9'') \<or>
               (of_char CHR ''a'' \<le> u \<and> u \<le> of_char CHR ''f''))"

definition uuid_shape :: "jsstring \<Rightarrow> bool" where
  "uuid_shape s = (length s = 36 \<and> list_all (\<lambda>u. is_hex u \<or> u = of_char CHR ''-'') s)"

section \<open>The storage key as the specification words it\<close>

text \<open>
  The specification's side of the name generator, written without the program's
  functions: the class \<open>[A-Za-z0-9._-]\<close> member by member; the name with every code unit
  outside the class replaced by an underscore; and what makes a string the decimal
  numeral of a number: digits only, no leading zero, and the value the digits denote.
  An integer is shown by its numeral, after a minus sign when it is negative.
\<close>

definition spec_class :: "code_unit set" where
  "spec_class =
     set (js ''ABCDEFGHIJKLMNOPQRSTUVWXYZabcdefghijklmnopqrstuvwxyz0123456789._-'')"

definition spec_sanitize :: "jsstring \<Rightarrow> jsstring" where
  "spec_sanitize name = map (\<lambda>u. if u \<in> spec_class then u else of_char CHR ''_'') name"

definition is_digit :: "code_unit \<Rightarrow> bool" where
  "is_digit u = (u \<in> set (js ''0123456789''))"

definition digits_value :: "jsstring \<Rightarrow> nat" where
  "digits_value ds = foldl (\<lambda>a u. 10 * a + unat (u - of_char CHR ''0'')) 0 ds"

definition decimal_numeral :: "jsstring \<Rightarrow> nat \<Rightarrow> bool" where
  "decimal_numeral ds n =
     (ds \<noteq> [] \<and> list_all is_digit ds \<and> (length ds = 1 \<or> hd ds \<noteq> of_char CHR ''0'') \<and>
      digits_value ds = n)"

definition shows_integer :: "jsstring \<Rightarrow> int \<Rightarrow> bool" where
  "shows_integer s n =
     (if n < 0
      then s \<noteq> [] \<and> hd s = of_char CHR ''-'' \<and> decimal_numeral (tl s) (nat (- n))
      else decimal_numeral s (nat n))"

section \<open>Storage gateway\<close>

text \<open>
  The ImageKit client is outside the program. Awaiting one of its promises either yields
  a value or throws the rejection value; a gateway is any pair of such operations.
\<close>

datatype settled = Resolves jsval | Rejects jsval

record upload_args =
  up_file :: bytes
  up_fileName :: jsstring
  up_folder :: jsstring
  up_useUniqueFileName :: bool
  up_isPrivateFile :: bool
  up_tags :: "jsstring list"

record gateway =
  imagekit_upload :: "upload_args \<Rightarrow> settled"
  imagekit_deleteFile :: "jsval \<Rightarrow> settled"

datatype handler_name = RootHandler | HealthHandler | UploadHandler | DeleteHandler

datatype event =
    Enter handler_name
  | GatewayUpload upload_args
  | GatewayDelete jsval

section \<open>Responses\<close>

record response =
  status :: nat
  body :: jsval

record preflight =
  allow_origin :: "jsstring option"
  allow_methods :: "jsstring list"
  allow_headers :: "jsstring list"
  allow_credentials :: bool

text \<open>
  How a request ends: a handler answered with \<open>res.json\<close>; the handler's promise was
  rejected because its \<open>catch\<close> block threw, with nothing written; the CORS middleware
  answered a pre-flight; an error passed to \<open>next\<close> reached Express's default error handler;
  no route matched. Logging with \<open>console.error\<close> does not change any of them and is left
  out.
\<close>

datatype outcome =
    Responded response
  | HandlerRejected
  | PreflightEnd preflight
  | ErrorPage nat app_error
  | NotFound

definition json_error :: "nat \<Rightarrow> jsval \<Rightarrow> outcome" where
  \<comment> \<open>\<open>res.status(code).json({ error: v })\<close>\<close>
  "json_error code v = Responded \<lparr>status = code, body = JObj [(js ''error'', v)]\<rparr>"

definition catch_block :: "jsval \<Rightarrow> outcome" where
  \<comment> \<open>\<open>res.status(500).json({ error: e.message || 'Server error' })\<close>\<close>
  "catch_block e =
     (case read_prop e (js ''message'') of
        None \<Rightarrow> HandlerRejected
      | Some m \<Rightarrow> json_error 500 (if truthy m then m else JStr (js ''Server error'')))"

section \<open>Upload handler\<close>

record inbound_file =
  originalname :: jsstring
  mimetype :: jsstring
  buffer :: bytes

definition upload_request :: "config \<Rightarrow> env \<Rightarrow> inbound_file \<Rightarrow> upload_args" where
  "upload_request cfg e f =
     \<lparr>up_file = buffer f,
      up_fileName = fileName e (originalname f),
      up_folder = IMAGEKIT_FOLDER cfg,
      up_useUniqueFileName = False,
      up_isPrivateFile = False,
      up_tags = [js ''lifcura'', js ''product'']\<rparr>"

definition upload_handler ::
  "config \<Rightarrow> env \<Rightarrow> gateway \<Rightarrow> inbound_file option \<Rightarrow> outcome \<times> event list" where
  "upload_handler cfg e gw req_file =
     (case req_file of
        None \<Rightarrow> (json_error 400 (JStr (js ''No file provided'')), [])
      | Some f \<Rightarrow>
          if \<not> startsWith (mimetype f) (js ''image/'')
          then (json_error 400 (JStr (js ''Only image uploads are allowed'')), [])
          else
            (case imagekit_upload gw (upload_request cfg e f) of
               Rejects err \<Rightarrow> (catch_block err, [GatewayUpload (upload_request cfg e f)])
             | Resolves result \<Rightarrow>
                 if \<not> truthy (optional_prop result (js ''url''))
                 then (json_error 500 (JStr (js ''ImageKit upload failed'')),
                       [GatewayUpload (upload_request cfg e f)])
                 else (Responded
                         \<lparr>status = 200,
                          body = JObj [(js ''url'', lookup result (js ''url'')),
                                       (js ''fileId'', lookup result (js ''fileId''))]\<rparr>,
                       [GatewayUpload (upload_request cfg e f)])))"

section \<open>Delete handler\<close>

definition delete_fileId :: "jsval \<Rightarrow> jsval" where
  \<comment> \<open>\<open>const { fileId } = req.body || {}\<close>; the right-hand side is truthy, so the read cannot throw\<close>
  "delete_fileId reqBody = lookup (if truthy reqBody then reqBody else JObj []) (js ''fileId'')"

definition delete_handler :: "gateway \<Rightarrow> jsval \<Rightarrow> outcome \<times> event list" where
  "delete_handler gw reqBody =
     (if \<not> truthy (delete_fileId reqBody)
      then (json_error 400 (JStr (js ''fileId is required'')), [])
      else
        (case imagekit_deleteFile gw (delete_fileId reqBody) of
           Rejects err \<Rightarrow> (catch_block err, [GatewayDelete (delete_fileId reqBody)])
         | Resolves r \<Rightarrow>
             (Responded \<lparr>status = 200, body = JObj [(js ''ok'', JBool True)]\<rparr>,
              [GatewayDelete (delete_fileId reqBody)])))"

section \<open>The application\<close>

text \<open>
  A request as the middleware chain sees it: the method, the route its path selects, the
  \<open>Origin\<close> header, the file part under field \<open>file\<close> of a multipart body (requests with
  other file parts are not modelled), and \<open>req.body\<close> as \<open>express.json()\<close> left it.
\<close>

datatype http_method = GET | HEAD | POST | DELETE | OPTIONS | OtherMethod

datatype route_path = PathRoot | PathHealth | PathUpload | PathImage | PathOther

record request =
  req_method :: http_method
  req_path :: route_path
  req_origin :: "jsstring option"
  req_file_part :: "inbound_file option"
  req_body :: jsval

text \<open>
  The contract of the \<open>cors\<close> package for an \<open>origin\<close> function: an error of the function
  goes to \<open>next(err)\<close>; \<open>false\<close> lets the request through without CORS headers; \<open>true\<close>
  reflects the origin, in a header that is only set when the origin is not empty, and on
  an OPTIONS request also lists \<open>methods\<close> and \<open>allowedHeaders\<close>, adds the credentials
  header only when \<open>credentials\<close> is set, and ends the response with 204.
\<close>

datatype cors_step = CorsFail app_error | CorsPreflight preflight | CorsNext

definition cors :: "cors_options \<Rightarrow> (jsstring option \<Rightarrow> app_error + bool) \<Rightarrow> request \<Rightarrow> cors_step" where
  "cors opts origin_fn req =
     (case origin_fn (req_origin req) of
        Inl err \<Rightarrow> CorsFail err
      | Inr ok \<Rightarrow>
          if \<not> ok then CorsNext
          else if req_method req = OPTIONS
          then CorsPreflight
                 \<lparr>allow_origin =
                    (if truthy (header_value (req_origin req)) then req_origin req else None),
                  allow_methods = methods opts,
                  allow_headers = allowedHeaders opts,
                  allow_credentials = credentials opts\<rparr>
          else CorsNext)"

text \<open>
  The contract of \<open>multer({ limits: { fileSize } }).single('file')\<close> with memory storage:
  without a file part \<open>req.file\<close> stays undefined; a part that reaches \<open>fileSize\<close> bytes
  ends in \<open>next(new MulterError('LIMIT_FILE_SIZE', 'file'))\<close>, the parser raising the limit
  as soon as the count of bytes arrives at it; otherwise the part is buffered whole into
  \<open>req.file\<close>. The properties of the limit below are stated for parts longer than the
  limit and for parts that passed, and do not depend on what happens at exactly
  \<open>fileSize\<close> bytes.
\<close>

definition upload_fileSize :: nat where
  "upload_fileSize = 10 * 1024 * 1024"

definition multer_single :: "nat \<Rightarrow> inbound_file option \<Rightarrow> app_error + inbound_file option" where
  "multer_single fileSize part =
     (case part of
        None \<Rightarrow> Inr None
      | Some f \<Rightarrow>
          if fileSize \<le> length (buffer f)
          then Inl (MulterError (js ''LIMIT_FILE_SIZE'') (js ''file''))
          else Inr (Some f))"

text \<open>
  The program installs no error-handling middleware, so an error given to \<open>next\<close> ends in
  Express's default handler. That handler takes the status from the error's \<open>status\<close> or
  \<open>statusCode\<close> property and answers 500 without one; neither the plain \<open>Error\<close> of the
  origin check nor a \<open>MulterError\<close> carries one.
\<close>

fun default_error_status :: "app_error \<Rightarrow> nat" where
  "default_error_status (Error message) = 500"
| "default_error_status (MulterError code field) = 500"

definition default_error_handler :: "app_error \<Rightarrow> outcome \<times> event list" where
  "default_error_handler err = (ErrorPage (default_error_status err) err, [])"

definition root_body :: jsval where
  "root_body =
     JObj [(js ''ok'', JBool True),
           (js ''message'', JStr (js ''Image uploader server is running.'')),
           (js ''endpoints'',
            JObj [(js ''health'', JStr (js ''/health'')),
                  (js ''upload'', JStr (js ''POST /upload (multipart/form-data, field name: file)''))])]"

definition entered :: "handler_name \<Rightarrow> outcome \<times> event list \<Rightarrow> outcome \<times> event list" where
  "entered h r = (fst r, Enter h # snd r)"

text \<open>The routes in the order they are registered; \<open>app.get\<close> also serves HEAD.\<close>

definition routes :: "config \<Rightarrow> env \<Rightarrow> gateway \<Rightarrow> request \<Rightarrow> outcome \<times> event list" where
  "routes cfg e gw req =
     (if (req_method req = GET \<or> req_method req = HEAD) \<and> req_path req = PathRoot
      then entered RootHandler (Responded \<lparr>status = 200, body = root_body\<rparr>, [])
      else if (req_method req = GET \<or> req_method req = HEAD) \<and> req_path req = PathHealth
      then entered HealthHandler
             (Responded \<lparr>status = 200, body = JObj [(js ''ok'', JBool True)]\<rparr>, [])
      else if req_method req = POST \<and> req_path req = PathUpload
      then (case multer_single upload_fileSize (req_file_part req) of
              Inl err \<Rightarrow> default_error_handler err
            | Inr req_file \<Rightarrow> entered UploadHandler (upload_handler cfg e gw req_file))
      else if req_method req = DELETE \<and> req_path req = PathImage
      then entered DeleteHandler (delete_handler gw (req_body req))
      else (NotFound, []))"

text \<open>
  \<open>app.options('*', cors(corsOptions))\<close>: the same middleware once more, for OPTIONS
  requests only. \<open>express.json()\<close> follows; the request already carries the body it
  leaves in \<open>req.body\<close>.
\<close>

definition options_all :: "config \<Rightarrow> env \<Rightarrow> gateway \<Rightarrow> request \<Rightarrow> outcome \<times> event list" where
  "options_all cfg e gw req =
     (if req_method req = OPTIONS
      then (case cors corsOptions (corsOptions_origin (allowedOrigins cfg)) req of
              CorsFail err \<Rightarrow> default_error_handler err
            | CorsPreflight p \<Rightarrow> (PreflightEnd p, [])
            | CorsNext \<Rightarrow> routes cfg e gw req)
      else routes cfg e gw req)"

text \<open>\<open>app.use(cors(corsOptions))\<close> runs first on every request.\<close>

definition app :: "config \<Rightarrow> env \<Rightarrow> gateway \<Rightarrow> request \<Rightarrow> outcome \<times> event list" where
  "app cfg e gw req =
     (case cors corsOptions (corsOptions_origin (allowedOrigins cfg)) req of
        CorsFail err \<Rightarrow> default_error_handler err
      | CorsPreflight p \<Rightarrow> (PreflightEnd p, [])
      | CorsNext \<Rightarrow> options_all cfg e gw req)"

section \<open>Status classes and sample inputs\<close>

fun outcome_status :: "outcome \<Rightarrow> nat option" where
  "outcome_status (Responded r) = Some (status r)"
| "outcome_status HandlerRejected = None"
| "outcome_status (PreflightEnd p) = Some 204"
| "outcome_status (ErrorPage code err) = Some code"
| "outcome_status NotFound = Some 404"

definition client_error :: "outcome \<Rightarrow> bool" where
  "client_error out =
     (case outcome_status out of None \<Rightarrow> False | Some code \<Rightarrow> 400 \<le> code \<and> code < 500)"

text \<open>
  Concrete inputs for the examples below: the configuration with no variable set and one
  with both set, two readings of the clock and the UUID source, gateways that settle
  every call the same way, and requests from the default origin.
\<close>

definition default_config :: config where
  "default_config = \<lparr>env_ALLOW_ORIGIN = None, env_IMAGEKIT_FOLDER = None\<rparr>"


definition env0 :: env where
  "env0 = \<lparr>now = 1700000000000, uuidv4 = js ''9b1deb4d-3b7d-4bad-9bdd-2b0d7b3dcb6d''\<rparr>"

definition env1 :: env where
  "env1 = \<lparr>now = 86400000, uuidv4 = js ''123e4567-e89b-42d3-a456-426614174000''\<rparr>"

definition gateway_of :: "settled \<Rightarrow> settled \<Rightarrow> gateway" where
  "gateway_of up del =
     \<lparr>imagekit_upload = (\<lambda>args. up), imagekit_deleteFile = (\<lambda>fileId. del)\<rparr>"

definition stored_asset :: jsval where
  "stored_asset =
     JObj [(js ''fileId'', JStr (js ''64f0c0ffee'')),
           (js ''url'', JStr (js ''https://ik.imagekit.io/demo/product-images/a.jpg''))]"

definition timeout_error :: jsval where
  "timeout_error = JObj [(js ''message'', JStr (js ''Request timed out''))]"

definition blank_error :: jsval where
  "blank_error = JObj [(js ''message'', JStr [])]"

definition jpeg_file :: inbound_file where
  "jpeg_file =
     \<lparr>originalname = js ''a b?.jpg'', mimetype = js ''image/jpeg'',
      buffer = [0xFF, 0xD8, 0xFF, 0xE0, 0x00, 0x10, 0x4A, 0x46, 0x49, 0x46]\<rparr>"

definition text_file :: inbound_file where
  "text_file =
     \<lparr>originalname = js ''notes.txt'', mimetype = js ''text/plain'', buffer = [0x68, 0x69]\<rparr>"

definition big_file :: inbound_file where
  "big_file =
     \<lparr>originalname = js ''big.jpg'', mimetype = js ''image/jpeg'',
      buffer = replicate (10 * 1024 * 1024 + 1) 0\<rparr>"

definition local_request :: "http_method \<Rightarrow> route_path \<Rightarrow> inbound_file option \<Rightarrow> jsval \<Rightarrow> request" where
  "local_request m p part b =
     \<lparr>req_method = m, req_path = p, req_origin = Some (js ''http://localhost:3000''),
      req_file_part = part, req_body = b\<rparr>"

definition evil_request :: "http_method \<Rightarrow> route_path \<Rightarrow> request" where
  "evil_request m p =
     \<lparr>req_method = m, req_path = p, req_origin = Some (js ''https://evil.example''),
      req_file_part = None, req_body = JUndefined\<rparr>"

section \<open>Auxiliary facts\<close>

subsection \<open>Characters of the storage key\<close>

lemma replace_unsafe_map:
  "replace_unsafe s = map (\<lambda>u. if char_class u then u else of_char CHR ''_'') s"
  by (induction s) simp_all

lemma char_class_underscore: "char_class 0x5F"
  by (simp add: char_class_def)

lemma char_class_hyphen: "char_class 0x2D"
  by (simp add: char_class_def)

lemma safeName_class: "u \<in> set (safeName s) \<Longrightarrow> char_class u"
  by (auto simp: safeName_def replace_unsafe_map char_class_underscore)

lemma length_safeName: "length (safeName s) = length s"
  by (simp add: safeName_def replace_unsafe_map)

lemma digit_class: "d < 10 \<Longrightarrow> char_class (digit d)"
proof -
  assume "d < 10"
  then have "d \<in> {0, 1, 2, 3, 4, 5, 6, 7, 8, 9}" by auto
  then show ?thesis
    by (auto simp: digit_def char_class_def)
qed

lemma decimal_class: "u \<in> set (decimal n) \<Longrightarrow> char_class u"
proof (induction n arbitrary: u rule: decimal.induct)
  case (1 n)
  show ?case
  proof (cases "n < 10")
    case True
    with "1.prems" show ?thesis
      by (simp add: decimal.simps [of n] digit_class)
  next
    case False
    with "1.prems" have "u \<in> set (decimal (n div 10)) \<or> u = digit (n mod 10)"
      by (auto simp: decimal.simps [of n])
    with False "1.IH" show ?thesis
      by (auto simp: digit_class)
  qed
qed

lemma number_toString_class: "u \<in> set (number_toString n) \<Longrightarrow> char_class u"
  by (auto simp: number_toString_def char_class_hyphen decimal_class split: if_splits)

lemma is_hex_class: "is_hex u \<Longrightarrow> char_class u"
proof -
  assume h: "is_hex u"
  have "(0x66 :: code_unit) \<le> 0x7A" by simp
  with h show ?thesis
    unfolding is_hex_def char_class_def by (auto intro: order_trans)
qed

lemma uuid_shape_class: "uuid_shape s \<Longrightarrow> u \<in> set s \<Longrightarrow> char_class u"
  using is_hex_class char_class_hyphen by (auto simp: uuid_shape_def list_all_iff)

text \<open>The digits printed for a time value read back as that value.\<close>

lemma digit_value: "d < 10 \<Longrightarrow> unat (digit d - 0x30) = d"
proof -
  assume "d < 10"
  then have "d \<in> {0, 1, 2, 3, 4, 5, 6, 7, 8, 9}" by auto
  then show ?thesis
    by (auto simp: digit_def)
qed

lemma decimal_value:
  "foldl (\<lambda>a u. 10 * a + unat (u - 0x30)) 0 (decimal n) = n"
proof (induction n rule: decimal.induct)
  case (1 n)
  show ?case
  proof (cases "n < 10")
    case True
    then show ?thesis
      by (simp add: decimal.simps [of n] digit_value)
  next
    case False
    with "1.IH" show ?thesis
      by (simp add: decimal.simps [of n] digit_value)
  qed
qed

subsection \<open>The program's key against the specification's words\<close>

text \<open>The ranges of the regular expression hold exactly the members of the written class.\<close>

lemma word_range_enum:
  fixes u :: code_unit
  shows "(a \<le> u \<and> u \<le> b) \<longleftrightarrow> u \<in> of_nat ` {unat a..unat b}"
proof
  assume "a \<le> u \<and> u \<le> b"
  then have "unat u \<in> {unat a..unat b}" by (simp add: word_le_nat_alt)
  then have "of_nat (unat u) \<in> (of_nat ` {unat a..unat b} :: code_unit set)" by (rule imageI)
  then show "u \<in> of_nat ` {unat a..unat b}" by simp
next
  assume "u \<in> of_nat ` {unat a..unat b}"
  then obtain n where n: "unat a \<le> n" "n \<le> unat b" and u: "u = of_nat n" by auto
  have "n < 2 ^ 16" using n(2) unsigned_less [of b, where ?'a = nat] by simp
  then have "unat u = n" unfolding u by (simp add: unat_of_nat)
  with n show "a \<le> u \<and> u \<le> b" by (simp add: word_le_nat_alt)
qed

lemma upt_enum: "{m..n} = set [m..<Suc n]" by auto

lemma char_class_spec: "char_class u \<longleftrightarrow> u \<in> spec_class"
proof -
  have "char_class u \<longleftrightarrow>
    u \<in> of_nat ` {97..122::nat} \<or> u \<in> of_nat ` {65..90::nat} \<or> u \<in> of_nat ` {48..57::nat}
      \<or> u = 0x2E \<or> u = 0x5F \<or> u = 0x2D"
    unfolding char_class_def
    using word_range_enum [where a = "0x61" and u = u and b = "0x7A"]
      word_range_enum [where a = "0x41" and u = u and b = "0x5A"]
      word_range_enum [where a = "0x30" and u = u and b = "0x39"]
    by simp
  also have "\<dots> \<longleftrightarrow> u \<in> spec_class"
    unfolding spec_class_def js_def upt_enum
    by (simp add: upt_conv_Cons) blast
  finally show ?thesis .
qed

lemma safeName_spec: "safeName name = spec_sanitize name"
  by (simp add: safeName_def replace_unsafe_map spec_sanitize_def char_class_spec)

text \<open>What \<open>number_toString\<close> prints is the numeral of its argument, and nothing else is.\<close>

lemma is_digit_cases: "is_digit u \<longleftrightarrow> (\<exists>d<10. u = digit d)"
proof
  assume "is_digit u"
  then have "u \<in> {0x30, 0x31, 0x32, 0x33, 0x34, 0x35, 0x36, 0x37, 0x38, 0x39}"
    by (simp add: is_digit_def js_def)
  moreover have "digit 0 = 0x30" "digit 1 = 0x31" "digit 2 = 0x32" "digit 3 = 0x33" "digit 4 = 0x34"
    "digit 5 = 0x35" "digit 6 = 0x36" "digit 7 = 0x37" "digit 8 = 0x38" "digit 9 = 0x39"
    by (simp_all add: digit_def)
  ultimately have "u \<in> {digit 0, digit 1, digit 2, digit 3, digit 4, digit 5, digit 6, digit 7,
      digit 8, digit 9}"
    by simp
  then show "\<exists>d<10. u = digit d"
    by (elim insertE emptyE) (rule exI, rule conjI, rule_tac [2] HOL.refl | simp)+
next
  assume "\<exists>d<10. u = digit d"
  then obtain d where "d < 10" and u: "u = digit d" by blast
  then have "d \<in> {0, 1, 2, 3, 4, 5, 6, 7, 8, 9}" by auto
  then show "is_digit u"
    unfolding u by (auto simp: digit_def is_digit_def js_def)
qed

lemma digits_value_snoc:
  "digits_value (ds @ [u]) = 10 * digits_value ds + unat (u - 0x30)"
  by (simp add: digits_value_def)

lemma digits_value_decimal: "digits_value (decimal n) = n"
  using decimal_value [of n] by (simp add: digits_value_def)

lemma decimal_nonempty: "decimal n \<noteq> []"
  by (simp add: decimal.simps [of n])

lemma decimal_digits: "list_all is_digit (decimal n)"
proof (induction n rule: decimal.induct)
  case (1 n)
  have "n mod 10 < 10" by simp
  then have "is_digit (digit (n mod 10))" "n < 10 \<Longrightarrow> is_digit (digit n)"
    unfolding is_digit_cases by blast+
  with "1.IH" show ?case
    by (cases "n < 10") (simp_all add: decimal.simps [of n])
qed

lemma hd_decimal: "0 < n \<Longrightarrow> hd (decimal n) \<noteq> 0x30"
proof (induction n rule: decimal.induct)
  case (1 n)
  show ?case
  proof (cases "n < 10")
    case True
    with "1.prems" have "n \<in> {1, 2, 3, 4, 5, 6, 7, 8, 9}" by auto
    then show ?thesis
      by (auto simp: decimal.simps [of n] digit_def)
  next
    case False
    then have "0 < n div 10" by simp
    with False "1.IH" have "hd (decimal (n div 10)) \<noteq> 0x30" by simp
    with False show ?thesis
      by (simp add: decimal.simps [of n] decimal_nonempty)
  qed
qed

lemma decimal_numeral_decimal: "decimal_numeral (decimal n) n"
proof -
  have "length (decimal n) = 1 \<or> hd (decimal n) \<noteq> 0x30"
  proof (cases "n = 0")
    case True
    then show ?thesis by (simp add: decimal.simps [of 0])
  next
    case False
    then show ?thesis by (simp add: hd_decimal)
  qed
  then show ?thesis
    by (simp add: decimal_numeral_def decimal_nonempty decimal_digits digits_value_decimal)
qed

lemma number_toString_shows: "shows_integer (number_toString n) n"
  by (simp add: shows_integer_def number_toString_def decimal_numeral_decimal)

text \<open>A number has one decimal numeral only.\<close>

lemma foldl_digits_mono:
  "a \<le> foldl (\<lambda>a u. 10 * a + unat (u - (0x30 :: code_unit))) a ds"
proof (induction ds arbitrary: a)
  case Nil
  show ?case by simp
next
  case (Cons u ds)
  have "a \<le> 10 * a + unat (u - 0x30)" by simp
  also have "\<dots> \<le> foldl (\<lambda>a u. 10 * a + unat (u - (0x30 :: code_unit))) (10 * a + unat (u - 0x30)) ds"
    by (rule Cons.IH)
  finally show ?case by simp
qed

lemma digits_value_pos:
  assumes "ds \<noteq> []" and "list_all is_digit ds" and "hd ds \<noteq> 0x30"
  shows "0 < digits_value ds"
proof -
  from assms(1) obtain u us where ds: "ds = u # us" by (cases ds) auto
  with assms(2) obtain d where d: "d < 10" "u = digit d" by (auto simp: is_digit_cases)
  with assms(3) ds have "d \<noteq> 0" by (cases "d = 0") (auto simp: digit_def)
  with d have "0 < unat (u - 0x30)" by (simp add: digit_value)
  also have "\<dots> \<le> digits_value ds"
    unfolding ds digits_value_def using foldl_digits_mono [of "unat (u - 0x30)" us] by simp
  finally show ?thesis .
qed

lemma decimal_numeral_unique: "decimal_numeral ds n \<Longrightarrow> ds = decimal n"
proof (induction ds arbitrary: n rule: rev_induct)
  case Nil
  then show ?case by (simp add: decimal_numeral_def)
next
  case (snoc u us)
  from snoc.prems obtain d where d: "d < 10" "u = digit d"
    by (auto simp: decimal_numeral_def is_digit_cases)
  from snoc.prems have n: "n = 10 * digits_value us + d"
    using d by (simp add: decimal_numeral_def digits_value_snoc digit_value)
  show ?case
  proof (cases "us = []")
    case True
    with n have "n = d" by (simp add: digits_value_def)
    with d True show ?thesis by (simp add: decimal.simps [of d])
  next
    case False
    with snoc.prems have hd: "hd us \<noteq> 0x30" and digits: "list_all is_digit us"
      by (auto simp: decimal_numeral_def)
    with False have "decimal_numeral us (digits_value us)"
      by (simp add: decimal_numeral_def)
    then have us: "us = decimal (digits_value us)" by (rule snoc.IH)
    from False digits hd have "0 < digits_value us" by (rule digits_value_pos)
    with n d have "\<not> n < 10" "n div 10 = digits_value us" "n mod 10 = d" by simp_all
    then have "decimal n = decimal (digits_value us) @ [digit d]"
      by (simp add: decimal.simps [of n])
    with us d show ?thesis by simp
  qed
qed

lemma shows_integer_unique: "shows_integer s n \<Longrightarrow> s = number_toString n"
proof (cases "n < 0")
  case True
  assume "shows_integer s n"
  with True have "s \<noteq> []" "hd s = 0x2D" "tl s = decimal (nat (- n))"
    by (simp_all add: shows_integer_def decimal_numeral_unique)
  then have "s = 0x2D # decimal (nat (- n))" by (cases s) simp_all
  with True show ?thesis by (simp add: number_toString_def)
next
  case False
  assume "shows_integer s n"
  with False show ?thesis
    by (simp add: shows_integer_def number_toString_def decimal_numeral_unique)
qed

lemma fileName_spec:
  "fileName e name =
     number_toString (now e) @ js ''-'' @ uuidv4 e @ js ''-'' @ spec_sanitize name"
  by (simp only: fileName_def safeName_spec)

lemma fileName_class:
  assumes "uuid_shape (uuidv4 e)"
  shows "set (fileName e name) \<subseteq> spec_class"
proof
  fix u
  assume "u \<in> set (fileName e name)"
  then consider "u \<in> set (number_toString (now e))" | "u \<in> set (js ''-'')"
    | "u \<in> set (uuidv4 e)" | "u \<in> set (safeName name)"
    unfolding fileName_def by auto
  then have "char_class u"
  proof cases
    case 1
    then show ?thesis by (rule number_toString_class)
  next
    case 2
    then show ?thesis by (simp add: js_def char_class_def)
  next
    case 3
    with assms show ?thesis by (rule uuid_shape_class)
  next
    case 4
    then show ?thesis by (rule safeName_class)
  qed
  then show "u \<in> spec_class" by (simp only: char_class_spec)
qed

lemma sample_numerals:
  "number_toString (now env0) = js ''1700000000000''"
  "number_toString (now env1) = js ''86400000''"
  by (simp_all add: env0_def env1_def number_toString_def decimal.simps digit_def js_def)

lemma sample_name: "spec_sanitize (js ''a b?.jpg'') = js ''a_b_.jpg''"
  by (simp add: spec_sanitize_def spec_class_def js_def)

subsection \<open>The sample inputs\<close>

lemma allowedOrigins_nonempty: "[] \<notin> set (allowedOrigins cfg)"
  by (simp add: allowedOrigins_def)

lemma allowedOrigins_default: "allowedOrigins default_config = [js ''http://localhost:3000'']"
  by (simp add: allowedOrigins_def default_config_def ALLOW_ORIGIN_def or_default_def js_def
      trim_def is_space_def)

lemma local_admitted:
  "corsOptions_origin (allowedOrigins default_config) (Some (js ''http://localhost:3000'')) = Inr True"
  by (simp add: allowedOrigins_default corsOptions_origin_def header_value_def js_def)

lemma local_origin_nonempty: "js ''http://localhost:3000'' \<noteq> []"
  by (simp add: js_def)

lemma evil_not_listed: "js ''https://evil.example'' \<notin> set (allowedOrigins default_config)"
  by (simp add: allowedOrigins_default js_def)

lemma upper_not_listed: "js ''HTTP://LOCALHOST:3000'' \<notin> set (allowedOrigins default_config)"
  by (simp add: allowedOrigins_default js_def)

lemma jpeg_is_image: "startsWith (mimetype jpeg_file) (js ''image/'')"
  by (simp add: jpeg_file_def startsWith_def js_def)

lemma text_not_image: "\<not> startsWith (mimetype text_file) (js ''image/'')"
  by (simp add: text_file_def startsWith_def js_def)

lemma env0_key:
  "fileName env0 (js ''a b?.jpg'') =
     js ''1700000000000-9b1deb4d-3b7d-4bad-9bdd-2b0d7b3dcb6d-a_b_.jpg''"
proof -
  have "number_toString (now env0) = js ''1700000000000''"
    by (simp add: env0_def number_toString_def decimal.simps digit_def js_def)
  moreover have "safeName (js ''a b?.jpg'') = js ''a_b_.jpg''"
    by (simp add: safeName_def js_def char_class_def)
  ultimately show ?thesis
    by (simp add: fileName_def) (simp add: env0_def js_def)
qed

subsection \<open>From the application to the handlers\<close>

lemma catch_block_nullish: "nullish err \<Longrightarrow> catch_block err = HandlerRejected"
  by (simp add: catch_block_def read_prop_def)

lemma app_upload:
  assumes "corsOptions_origin (allowedOrigins cfg) (req_origin req) = Inr True"
    and "req_method req = POST" and "req_path req = PathUpload"
    and "multer_single upload_fileSize (req_file_part req) = Inr req_file"
  shows "app cfg e gw req = entered UploadHandler (upload_handler cfg e gw req_file)"
  using assms by (simp add: app_def options_all_def cors_def routes_def)

lemma app_delete:
  assumes "corsOptions_origin (allowedOrigins cfg) (req_origin req) = Inr True"
    and "req_method req = DELETE" and "req_path req = PathImage"
  shows "app cfg e gw req = entered DeleteHandler (delete_handler gw (req_body req))"
  using assms by (simp add: app_def options_all_def cors_def routes_def)

text \<open>Whatever the middleware decides, the events of a request are those of its route, or none.\<close>

lemma app_events: "snd (app cfg e gw req) = [] \<or> app cfg e gw req = routes cfg e gw req"
  by (simp add: app_def options_all_def default_error_handler_def split: cors_step.split)

section \<open>Properties of the upload handler\<close>

text \<open>
  C7. An upload request without a file part under field \<open>file\<close> reaches the handler with
  \<open>req.file\<close> undefined; the handler answers 400 with \<open>{error: "No file provided"}\<close>, and
  no name is generated and no gateway call is made before that.
\<close>

theorem missing_file_rejected:
  "upload_handler cfg e gw None =
     (Responded \<lparr>status = 400, body = JObj [(js ''error'', JStr (js ''No file provided''))]\<rparr>, [])"
  by (simp add: upload_handler_def json_error_def)

theorem missing_file_rejected_witness:
  "upload_handler default_config env0 (gateway_of (Resolves stored_asset) (Resolves JNull)) None =
     (Responded \<lparr>status = 400, body = JObj [(js ''error'', JStr (js ''No file provided''))]\<rparr>, [])"
  using missing_file_rejected [of default_config env0 "gateway_of (Resolves stored_asset) (Resolves JNull)"]
  by simp

text \<open>
  C1. When the file's \<open>mimetype\<close> does not start with \<open>image/\<close>, the upload handler
  answers 400 with \<open>{error: "Only image uploads are allowed"}\<close> and the gateway's upload
  is never invoked: the handler makes no gateway call, and no upload call occurs among
  the events of the whole request, whether or not the request gets as far as the handler.
\<close>

theorem non_image_rejected:
  assumes "\<not> startsWith (mimetype f) (js ''image/'')"
  shows "upload_handler cfg e gw (Some f) =
           (Responded \<lparr>status = 400,
              body = JObj [(js ''error'', JStr (js ''Only image uploads are allowed''))]\<rparr>, [])
       \<and> (req_method req = POST \<and> req_path req = PathUpload \<and> req_file_part req = Some f \<longrightarrow>
            GatewayUpload args \<notin> set (snd (app cfg e gw req)))"
proof -
  have handler: "upload_handler cfg e gw (Some f) =
      (Responded \<lparr>status = 400,
         body = JObj [(js ''error'', JStr (js ''Only image uploads are allowed''))]\<rparr>, [])"
    using assms by (simp add: upload_handler_def json_error_def)
  have "GatewayUpload args \<notin> set (snd (app cfg e gw req))"
    if "req_method req = POST" and "req_path req = PathUpload" and "req_file_part req = Some f"
  proof -
    have "GatewayUpload args \<notin> set (snd (routes cfg e gw req))"
      using that handler
      by (simp add: routes_def multer_single_def default_error_handler_def entered_def)
    with app_events [of cfg e gw req] show ?thesis
      by auto
  qed
  with handler show ?thesis by blast
qed

theorem non_image_rejected_witness:
  "\<not> startsWith (mimetype text_file) (js ''image/'')
   \<and> upload_handler default_config env0 (gateway_of (Resolves stored_asset) (Resolves JNull))
       (Some text_file) =
     (Responded \<lparr>status = 400,
        body = JObj [(js ''error'', JStr (js ''Only image uploads are allowed''))]\<rparr>, [])
   \<and> GatewayUpload (upload_request default_config env0 text_file)
       \<notin> set (snd (app default_config env0 (gateway_of (Resolves stored_asset) (Resolves JNull))
                  (local_request POST PathUpload (Some text_file) JUndefined)))"
  using text_not_image
    non_image_rejected [OF text_not_image, of default_config env0
      "gateway_of (Resolves stored_asset) (Resolves JNull)"
      "local_request POST PathUpload (Some text_file) JUndefined"
      "upload_request default_config env0 text_file"]
  by (simp add: local_request_def)

text \<open>
  C2. The storage key is the decimal numeral of the clock's reading, a hyphen, the UUID, a
  hyphen and the sanitised name, where the sanitised name is the original name with every
  code unit outside \<open>[A-Za-z0-9._-]\<close> replaced by an underscore. Consequently, with a
  UUID of the shape the \<open>uuid\<close> package produces, every code unit of the key belongs to
  that class. The statement is in the specification's own terms: the key is not named
  through the program's printing of the time or its sanitising, and since a number has
  exactly one numeral, the terms leave one key only.
\<close>

theorem storage_key_format:
  "(\<exists>ts. shows_integer ts (now e) \<and>
          fileName e name = ts @ js ''-'' @ uuidv4 e @ js ''-'' @ spec_sanitize name)
   \<and> (uuid_shape (uuidv4 e) \<longrightarrow> set (fileName e name) \<subseteq> spec_class)"
proof (intro conjI impI)
  have "shows_integer (number_toString (now e)) (now e)"
    by (rule number_toString_shows)
  moreover have "fileName e name =
      number_toString (now e) @ js ''-'' @ uuidv4 e @ js ''-'' @ spec_sanitize name"
    by (rule fileName_spec)
  ultimately show "\<exists>ts. shows_integer ts (now e) \<and>
      fileName e name = ts @ js ''-'' @ uuidv4 e @ js ''-'' @ spec_sanitize name"
    by blast
next
  assume "uuid_shape (uuidv4 e)"
  then show "set (fileName e name) \<subseteq> spec_class"
    by (rule fileName_class)
qed

theorem storage_key_format_witness:
  "uuid_shape (uuidv4 env0)
   \<and> shows_integer (js ''1700000000000'') (now env0)
   \<and> fileName env0 (js ''a b?.jpg'') =
       js ''1700000000000-9b1deb4d-3b7d-4bad-9bdd-2b0d7b3dcb6d-a_b_.jpg''
   \<and> set (fileName env0 (js ''a b?.jpg'')) \<subseteq> spec_class
   \<and> fileName env1 (js ''a b?.jpg'') =
       js ''86400000-123e4567-e89b-42d3-a456-426614174000-a_b_.jpg''"
proof -
  have shape: "uuid_shape (uuidv4 env0)"
    by (simp add: env0_def uuid_shape_def js_def is_hex_def)
  from storage_key_format [of env0 "js ''a b?.jpg''"]
  obtain ts where ts: "shows_integer ts (now env0)"
    and key: "fileName env0 (js ''a b?.jpg'') =
      ts @ js ''-'' @ uuidv4 env0 @ js ''-'' @ spec_sanitize (js ''a b?.jpg'')"
    and cls: "uuid_shape (uuidv4 env0) \<longrightarrow> set (fileName env0 (js ''a b?.jpg'')) \<subseteq> spec_class"
    by blast
  from ts have ts_eq: "ts = js ''1700000000000''"
    by (simp only: shows_integer_unique [OF ts] sample_numerals)
  from ts have shown: "shows_integer (js ''1700000000000'') (now env0)"
    by (simp only: ts_eq)
  have key0: "fileName env0 (js ''a b?.jpg'') =
      js ''1700000000000-9b1deb4d-3b7d-4bad-9bdd-2b0d7b3dcb6d-a_b_.jpg''"
    unfolding key ts_eq sample_name by (simp add: env0_def js_def)
  from storage_key_format [of env1 "js ''a b?.jpg''"]
  obtain ts' where ts': "shows_integer ts' (now env1)"
    and key': "fileName env1 (js ''a b?.jpg'') =
      ts' @ js ''-'' @ uuidv4 env1 @ js ''-'' @ spec_sanitize (js ''a b?.jpg'')"
    by blast
  have ts'_eq: "ts' = js ''86400000''"
    by (simp only: shows_integer_unique [OF ts'] sample_numerals)
  have key1: "fileName env1 (js ''a b?.jpg'') =
      js ''86400000-123e4567-e89b-42d3-a456-426614174000-a_b_.jpg''"
    unfolding key' ts'_eq sample_name by (simp add: env1_def js_def)
  from cls shape have "set (fileName env0 (js ''a b?.jpg'')) \<subseteq> spec_class"
    by (rule mp)
  with shape shown key0 key1 show ?thesis by (intro conjI)
qed



text \<open>
  C3. After validation: when the gateway's upload throws an error (a value other than
  \<open>undefined\<close> and \<open>null\<close>), the handler answers 500 with the error's message when it
  has a truthy one and with \<open>"Server error"\<close> otherwise; when the upload returns a result
  without a truthy \<open>url\<close>, it answers 500 with \<open>"ImageKit upload failed"\<close>; otherwise it
  answers 200 with the result's \<open>url\<close> and \<open>fileId\<close>.
\<close>

theorem upload_outcomes:
  assumes "startsWith (mimetype f) (js ''image/'')"
  shows "(imagekit_upload gw (upload_request cfg e f) = Rejects err \<and> \<not> nullish err \<longrightarrow>
            fst (upload_handler cfg e gw (Some f)) =
              Responded \<lparr>status = 500,
                body = JObj [(js ''error'',
                  if truthy (lookup err (js ''message'')) then lookup err (js ''message'')
                  else JStr (js ''Server error''))]\<rparr>)
       \<and> (imagekit_upload gw (upload_request cfg e f) = Resolves result \<and>
            \<not> truthy (optional_prop result (js ''url'')) \<longrightarrow>
            fst (upload_handler cfg e gw (Some f)) =
              Responded \<lparr>status = 500,
                body = JObj [(js ''error'', JStr (js ''ImageKit upload failed''))]\<rparr>)
       \<and> (imagekit_upload gw (upload_request cfg e f) = Resolves result \<and>
            truthy (optional_prop result (js ''url'')) \<longrightarrow>
            fst (upload_handler cfg e gw (Some f)) =
              Responded \<lparr>status = 200,
                body = JObj [(js ''url'', lookup result (js ''url'')),
                             (js ''fileId'', lookup result (js ''fileId''))]\<rparr>)"
  using assms
  by (simp add: upload_handler_def json_error_def catch_block_def read_prop_def)

theorem upload_outcomes_witness:
  "startsWith (mimetype jpeg_file) (js ''image/'')
   \<and> fst (upload_handler default_config env0 (gateway_of (Rejects timeout_error) (Resolves JNull))
            (Some jpeg_file)) =
       Responded \<lparr>status = 500, body = JObj [(js ''error'', JStr (js ''Request timed out''))]\<rparr>
   \<and> fst (upload_handler default_config env0 (gateway_of (Rejects blank_error) (Resolves JNull))
            (Some jpeg_file)) =
       Responded \<lparr>status = 500, body = JObj [(js ''error'', JStr (js ''Server error''))]\<rparr>
   \<and> fst (upload_handler default_config env0 (gateway_of (Resolves JNull) (Resolves JNull))
            (Some jpeg_file)) =
       Responded \<lparr>status = 500, body = JObj [(js ''error'', JStr (js ''ImageKit upload failed''))]\<rparr>
   \<and> fst (upload_handler default_config env0 (gateway_of (Resolves stored_asset) (Resolves JNull))
            (Some jpeg_file)) =
       Responded \<lparr>status = 200,
         body = JObj [(js ''url'', JStr (js ''https://ik.imagekit.io/demo/product-images/a.jpg'')),
                      (js ''fileId'', JStr (js ''64f0c0ffee''))]\<rparr>"
proof -
  have msg: "lookup timeout_error (js ''message'') = JStr (js ''Request timed out'')"
    "lookup blank_error (js ''message'') = JStr []"
    "\<not> nullish timeout_error" "\<not> nullish blank_error"
    by (simp_all add: timeout_error_def blank_error_def nullish_def)
  have asset: "lookup stored_asset (js ''url'') = JStr (js ''https://ik.imagekit.io/demo/product-images/a.jpg'')"
    "lookup stored_asset (js ''fileId'') = JStr (js ''64f0c0ffee'')"
    "\<not> nullish stored_asset"
    by (simp_all add: stored_asset_def nullish_def js_def)
  have up: "imagekit_upload (gateway_of u d) args = u" for u d args
    by (simp add: gateway_of_def)
  have "js ''Request timed out'' \<noteq> []" and "js ''https://ik.imagekit.io/demo/product-images/a.jpg'' \<noteq> []"
    by (simp_all add: js_def)
  with msg asset up show ?thesis
    using jpeg_is_image
      upload_outcomes [OF jpeg_is_image, of "gateway_of (Rejects timeout_error) (Resolves JNull)"
        default_config env0 timeout_error]
      upload_outcomes [OF jpeg_is_image, of "gateway_of (Rejects blank_error) (Resolves JNull)"
        default_config env0 blank_error]
      upload_outcomes [OF jpeg_is_image, of "gateway_of (Resolves JNull) (Resolves JNull)"
        default_config env0 _ JNull]
      upload_outcomes [OF jpeg_is_image, of "gateway_of (Resolves stored_asset) (Resolves JNull)"
        default_config env0 _ stored_asset]
    by (simp add: optional_prop_def nullish_def)
qed

section \<open>Properties of the delete handler\<close>

text \<open>
  C4, as the code has it. When the body has no \<open>fileId\<close> the handler answers 400 with
  \<open>{error: "fileId is required"}\<close> and makes no gateway call. With a truthy \<open>fileId\<close>
  the gateway's delete is called with it: when that throws an error (a value other than
  \<open>undefined\<close> and \<open>null\<close>) the handler answers 500 with the error's message when it has
  a truthy one and with \<open>"Server error"\<close> otherwise; when it succeeds the handler answers
  \<open>{ok: true}\<close>.
\<close>

theorem delete_outcomes:
  "(delete_fileId reqBody = JUndefined \<longrightarrow>
      delete_handler gw reqBody =
        (Responded \<lparr>status = 400,
           body = JObj [(js ''error'', JStr (js ''fileId is required''))]\<rparr>, []))
   \<and> (truthy (delete_fileId reqBody) \<and>
        imagekit_deleteFile gw (delete_fileId reqBody) = Rejects err \<and> \<not> nullish err \<longrightarrow>
      delete_handler gw reqBody =
        (Responded \<lparr>status = 500,
           body = JObj [(js ''error'',
             if truthy (lookup err (js ''message'')) then lookup err (js ''message'')
             else JStr (js ''Server error''))]\<rparr>,
         [GatewayDelete (delete_fileId reqBody)]))
   \<and> (truthy (delete_fileId reqBody) \<and>
        imagekit_deleteFile gw (delete_fileId reqBody) = Resolves r \<longrightarrow>
      delete_handler gw reqBody =
        (Responded \<lparr>status = 200, body = JObj [(js ''ok'', JBool True)]\<rparr>,
         [GatewayDelete (delete_fileId reqBody)]))"
  by (simp add: delete_handler_def json_error_def catch_block_def read_prop_def)

theorem delete_outcomes_witness:
  "delete_handler (gateway_of (Resolves stored_asset) (Resolves JNull)) (JObj []) =
     (Responded \<lparr>status = 400,
        body = JObj [(js ''error'', JStr (js ''fileId is required''))]\<rparr>, [])
   \<and> delete_handler (gateway_of (Resolves stored_asset) (Rejects timeout_error))
        (JObj [(js ''fileId'', JStr (js ''64f0c0ffee''))]) =
     (Responded \<lparr>status = 500, body = JObj [(js ''error'', JStr (js ''Request timed out''))]\<rparr>,
      [GatewayDelete (JStr (js ''64f0c0ffee''))])
   \<and> delete_handler (gateway_of (Resolves stored_asset) (Resolves JNull))
        (JObj [(js ''fileId'', JStr (js ''64f0c0ffee''))]) =
     (Responded \<lparr>status = 200, body = JObj [(js ''ok'', JBool True)]\<rparr>,
      [GatewayDelete (JStr (js ''64f0c0ffee''))])"
proof -
  have id: "delete_fileId (JObj [(js ''fileId'', JStr (js ''64f0c0ffee''))]) = JStr (js ''64f0c0ffee'')"
    "delete_fileId (JObj []) = JUndefined"
    by (simp_all add: delete_fileId_def)
  have nonempty: "js ''64f0c0ffee'' \<noteq> []" "js ''Request timed out'' \<noteq> []"
    by (simp_all add: js_def)
  have msg: "lookup timeout_error (js ''message'') = JStr (js ''Request timed out'')"
    "\<not> nullish timeout_error"
    by (simp_all add: timeout_error_def nullish_def)
  have del: "imagekit_deleteFile (gateway_of u d) v = d" for u d v
    by (simp add: gateway_of_def)
  from id nonempty msg del show ?thesis
    using
      delete_outcomes [of "JObj []" "gateway_of (Resolves stored_asset) (Resolves JNull)"]
      delete_outcomes [of "JObj [(js ''fileId'', JStr (js ''64f0c0ffee''))]"
        "gateway_of (Resolves stored_asset) (Rejects timeout_error)" timeout_error]
      delete_outcomes [of "JObj [(js ''fileId'', JStr (js ''64f0c0ffee''))]"
        "gateway_of (Resolves stored_asset) (Resolves JNull)" _ JNull]
    by simp
qed

text \<open>
  The gateway rejects with an error whose message is the empty string, as \<open>new Error()\<close>
  has it: the response carries \<open>"Server error"\<close>, not the underlying message. An error
  object without any \<open>message\<close> is answered the same way.
\<close>

theorem delete_message_counterexample:
  "imagekit_deleteFile (gateway_of (Resolves stored_asset) (Rejects blank_error))
       (delete_fileId (JObj [(js ''fileId'', JStr (js ''64f0c0ffee''))])) = Rejects blank_error
   \<and> lookup blank_error (js ''message'') = JStr []
   \<and> fst (delete_handler (gateway_of (Resolves stored_asset) (Rejects blank_error))
            (JObj [(js ''fileId'', JStr (js ''64f0c0ffee''))])) =
       Responded \<lparr>status = 500, body = JObj [(js ''error'', JStr (js ''Server error''))]\<rparr>
   \<and> JStr (js ''Server error'') \<noteq> JStr []"
  by (simp add: delete_handler_def delete_fileId_def gateway_of_def catch_block_def read_prop_def
      nullish_def json_error_def blank_error_def js_def)

text \<open>
  C10. The check on \<open>fileId\<close> is a truthiness check: whenever the value read from the
  body is falsy the handler answers 400 with \<open>{error: "fileId is required"}\<close> and never
  calls the gateway. That covers a body whose \<open>fileId\<close> is \<open>null\<close>, the empty string,
  \<open>0\<close> or \<open>false\<close>, as well as a body without the property.
\<close>

theorem falsy_fileId_rejected:
  "(\<not> truthy (delete_fileId reqBody) \<longrightarrow>
      delete_handler gw reqBody =
        (Responded \<lparr>status = 400,
           body = JObj [(js ''error'', JStr (js ''fileId is required''))]\<rparr>, []))
   \<and> (\<forall>v \<in> {JNull, JStr [], JNum 0, JBool False}.
        map_of kvs (js ''fileId'') = Some v \<longrightarrow>
        delete_handler gw (JObj kvs) =
          (Responded \<lparr>status = 400,
             body = JObj [(js ''error'', JStr (js ''fileId is required''))]\<rparr>, []))
   \<and> (map_of kvs (js ''fileId'') = None \<longrightarrow>
        delete_handler gw (JObj kvs) =
          (Responded \<lparr>status = 400,
             body = JObj [(js ''error'', JStr (js ''fileId is required''))]\<rparr>, []))"
  by (simp add: delete_handler_def json_error_def delete_fileId_def is_zero_def)

theorem falsy_fileId_rejected_witness:
  "delete_handler (gateway_of (Resolves stored_asset) (Resolves JNull))
       (JObj [(js ''fileId'', JNull)]) =
       (Responded \<lparr>status = 400,
          body = JObj [(js ''error'', JStr (js ''fileId is required''))]\<rparr>, [])
   \<and> delete_handler (gateway_of (Resolves stored_asset) (Resolves JNull))
       (JObj [(js ''fileId'', JStr [])]) =
       (Responded \<lparr>status = 400,
          body = JObj [(js ''error'', JStr (js ''fileId is required''))]\<rparr>, [])
   \<and> delete_handler (gateway_of (Resolves stored_asset) (Resolves JNull))
       (JObj [(js ''fileId'', JNum 0)]) =
       (Responded \<lparr>status = 400,
          body = JObj [(js ''error'', JStr (js ''fileId is required''))]\<rparr>, [])
   \<and> delete_handler (gateway_of (Resolves stored_asset) (Resolves JNull))
       (JObj [(js ''fileId'', JBool False)]) =
       (Responded \<lparr>status = 400,
          body = JObj [(js ''error'', JStr (js ''fileId is required''))]\<rparr>, [])
   \<and> delete_handler (gateway_of (Resolves stored_asset) (Resolves JNull)) (JObj []) =
       (Responded \<lparr>status = 400,
          body = JObj [(js ''error'', JStr (js ''fileId is required''))]\<rparr>, [])
   \<and> \<not> truthy (delete_fileId JUndefined)
   \<and> delete_handler (gateway_of (Resolves stored_asset) (Resolves JNull)) JUndefined =
       (Responded \<lparr>status = 400,
          body = JObj [(js ''error'', JStr (js ''fileId is required''))]\<rparr>, [])"
proof -
  have "\<not> truthy (delete_fileId JUndefined)"
    by (simp add: delete_fileId_def)
  then show ?thesis
    using
      falsy_fileId_rejected [of JUndefined "gateway_of (Resolves stored_asset) (Resolves JNull)" "[]"]
      falsy_fileId_rejected [of JUndefined "gateway_of (Resolves stored_asset) (Resolves JNull)"
        "[(js ''fileId'', JNull)]"]
      falsy_fileId_rejected [of JUndefined "gateway_of (Resolves stored_asset) (Resolves JNull)"
        "[(js ''fileId'', JStr [])]"]
      falsy_fileId_rejected [of JUndefined "gateway_of (Resolves stored_asset) (Resolves JNull)"
        "[(js ''fileId'', JNum 0)]"]
      falsy_fileId_rejected [of JUndefined "gateway_of (Resolves stored_asset) (Resolves JNull)"
        "[(js ''fileId'', JBool False)]"]
    by simp
qed

section \<open>Properties of origin admission and the middleware chain\<close>

text \<open>
  C5, as the code has it. The origin function allows a request exactly when the \<open>Origin\<close>
  header is absent, or is the empty string, or equals an entry of the allow-list code
  unit for code unit; every other origin gets the error \<open>Not allowed by CORS\<close>. The
  application then ends the request in the default error handler with no handler
  entered and no gateway call made, whatever the method and route.
\<close>

theorem origin_admission:
  "(corsOptions_origin allowed origin = Inr True \<longleftrightarrow>
      origin = None \<or> origin = Some [] \<or> (\<exists>s. origin = Some s \<and> s \<in> set allowed))
   \<and> (corsOptions_origin allowed origin \<noteq> Inr True \<longrightarrow>
        corsOptions_origin allowed origin = Inl (Error (js ''Not allowed by CORS'')))
   \<and> (corsOptions_origin (allowedOrigins cfg) (req_origin req) \<noteq> Inr True \<longrightarrow>
        app cfg e gw req = (ErrorPage 500 (Error (js ''Not allowed by CORS'')), []))"
  by (auto simp: corsOptions_origin_def header_value_def app_def cors_def default_error_handler_def
      split: option.splits)

theorem origin_admission_witness:
  "corsOptions_origin (allowedOrigins default_config) None = Inr True
   \<and> corsOptions_origin (allowedOrigins default_config) (Some (js ''http://localhost:3000'')) = Inr True
   \<and> corsOptions_origin (allowedOrigins default_config) (Some (js ''HTTP://LOCALHOST:3000'')) =
       Inl (Error (js ''Not allowed by CORS''))
   \<and> corsOptions_origin (allowedOrigins default_config) (Some (js ''https://evil.example'')) \<noteq> Inr True
   \<and> app default_config env0 (gateway_of (Resolves stored_asset) (Resolves JNull))
        (evil_request POST PathUpload) =
       (ErrorPage 500 (Error (js ''Not allowed by CORS'')), [])"
proof -
  let ?allowed = "allowedOrigins default_config"
  let ?gw = "gateway_of (Resolves stored_asset) (Resolves JNull)"
  have listed: "js ''http://localhost:3000'' \<in> set ?allowed"
    by (simp add: allowedOrigins_default)
  have nonempty: "js ''HTTP://LOCALHOST:3000'' \<noteq> []" "js ''https://evil.example'' \<noteq> []"
    by (simp_all add: js_def)
  have origin: "req_origin (evil_request POST PathUpload) = Some (js ''https://evil.example'')"
    by (simp add: evil_request_def)
  have absent: "corsOptions_origin ?allowed None = Inr True"
    using origin_admission [of ?allowed None, THEN conjunct1] by simp
  have local: "corsOptions_origin ?allowed (Some (js ''http://localhost:3000'')) = Inr True"
    using origin_admission [of ?allowed "Some (js ''http://localhost:3000'')", THEN conjunct1] listed
    by simp
  have "corsOptions_origin ?allowed (Some (js ''HTTP://LOCALHOST:3000'')) \<noteq> Inr True"
    using origin_admission [of ?allowed "Some (js ''HTTP://LOCALHOST:3000'')", THEN conjunct1]
      upper_not_listed nonempty by simp
  then have upper: "corsOptions_origin ?allowed (Some (js ''HTTP://LOCALHOST:3000'')) =
      Inl (Error (js ''Not allowed by CORS''))"
    using origin_admission [of ?allowed "Some (js ''HTTP://LOCALHOST:3000'')",
        THEN conjunct2, THEN conjunct1]
    by (rule rev_mp)
  have evil: "corsOptions_origin ?allowed (Some (js ''https://evil.example'')) \<noteq> Inr True"
    using origin_admission [of ?allowed "Some (js ''https://evil.example'')", THEN conjunct1]
      evil_not_listed nonempty by simp
  then have "corsOptions_origin ?allowed (req_origin (evil_request POST PathUpload)) \<noteq> Inr True"
    unfolding origin .
  then have denied: "app default_config env0 ?gw (evil_request POST PathUpload) =
      (ErrorPage 500 (Error (js ''Not allowed by CORS'')), [])"
    using origin_admission [of ?allowed None default_config "evil_request POST PathUpload" env0 ?gw,
        THEN conjunct2, THEN conjunct2]
    by (rule rev_mp)
  from absent local upper evil denied show ?thesis by (intro conjI)
qed

text \<open>
  An \<open>Origin\<close> header that is present but empty is no entry of the allow-list, which never
  holds an empty string, and is allowed all the same.
\<close>

theorem empty_origin_counterexample:
  "allowedOrigins default_config = [js ''http://localhost:3000'']
   \<and> [] \<notin> set (allowedOrigins default_config)
   \<and> corsOptions_origin (allowedOrigins default_config) (Some []) = Inr True"
  by (simp add: allowedOrigins_default corsOptions_origin_def header_value_def js_def)

text \<open>
  C9, as the code has it. A pre-flight request gets the decision of the origin function,
  which does not look at the method or the route: a denied origin ends in the default
  error handler for OPTIONS as for every other method, and an allowed origin is answered
  by the CORS middleware with the methods GET, POST, DELETE and OPTIONS, the headers
  Content-Type and Authorization, the request's origin reflected when it is not empty,
  and no credentials; with any other method the allowed request goes on to the routes.
\<close>

theorem preflight_contract:
  "(corsOptions_origin (allowedOrigins cfg) (req_origin req) = Inl err \<longrightarrow>
      app cfg e gw (req\<lparr>req_method := m\<rparr>) = (ErrorPage 500 err, []))
   \<and> (corsOptions_origin (allowedOrigins cfg) (req_origin req) = Inr True \<longrightarrow>
      app cfg e gw (req\<lparr>req_method := OPTIONS\<rparr>) =
        (PreflightEnd
           \<lparr>allow_origin =
              (case req_origin req of None \<Rightarrow> None | Some s \<Rightarrow> if s = [] then None else Some s),
            allow_methods = [js ''GET'', js ''POST'', js ''DELETE'', js ''OPTIONS''],
            allow_headers = [js ''Content-Type'', js ''Authorization''],
            allow_credentials = False\<rparr>, []))
   \<and> (corsOptions_origin (allowedOrigins cfg) (req_origin req) = Inr True \<and> m \<noteq> OPTIONS \<longrightarrow>
      app cfg e gw (req\<lparr>req_method := m\<rparr>) = routes cfg e gw (req\<lparr>req_method := m\<rparr>))"
  by (cases err)
    (simp_all add: app_def options_all_def cors_def corsOptions_def default_error_handler_def
      header_value_def split: option.split)

theorem preflight_contract_witness:
  "app default_config env0 (gateway_of (Resolves stored_asset) (Resolves JNull))
       (evil_request OPTIONS PathImage) =
     (ErrorPage 500 (Error (js ''Not allowed by CORS'')), [])
   \<and> app default_config env0 (gateway_of (Resolves stored_asset) (Resolves JNull))
       (evil_request DELETE PathImage) =
     (ErrorPage 500 (Error (js ''Not allowed by CORS'')), [])
   \<and> app default_config env0 (gateway_of (Resolves stored_asset) (Resolves JNull))
       (local_request OPTIONS PathImage None JUndefined) =
     (PreflightEnd
        \<lparr>allow_origin = Some (js ''http://localhost:3000''),
         allow_methods = [js ''GET'', js ''POST'', js ''DELETE'', js ''OPTIONS''],
         allow_headers = [js ''Content-Type'', js ''Authorization''],
         allow_credentials = False\<rparr>, [])
   \<and> app default_config env0 (gateway_of (Resolves stored_asset) (Resolves JNull))
       (local_request GET PathHealth None JUndefined) =
     (Responded \<lparr>status = 200, body = JObj [(js ''ok'', JBool True)]\<rparr>, [Enter HealthHandler])"
proof -
  have denied: "corsOptions_origin (allowedOrigins default_config)
      (req_origin (evil_request GET PathImage)) = Inl (Error (js ''Not allowed by CORS''))"
    using evil_not_listed
    by (simp add: evil_request_def corsOptions_origin_def header_value_def) (simp add: js_def)
  have allowed: "corsOptions_origin (allowedOrigins default_config)
      (req_origin (local_request GET p None JUndefined)) = Inr True" for p
    using local_admitted by (simp add: local_request_def)
  have evil: "(evil_request GET PathImage)\<lparr>req_method := m\<rparr> = evil_request m PathImage" for m
    by (simp add: evil_request_def)
  have local: "(local_request GET p None JUndefined)\<lparr>req_method := m\<rparr>
      = local_request m p None JUndefined" for m p
    by (simp add: local_request_def)
  have health: "routes default_config env0 (gateway_of (Resolves stored_asset) (Resolves JNull))
       (local_request GET PathHealth None JUndefined) =
     (Responded \<lparr>status = 200, body = JObj [(js ''ok'', JBool True)]\<rparr>, [Enter HealthHandler])"
    by (simp add: routes_def local_request_def entered_def)
  have origin: "req_origin (local_request GET p None JUndefined) = Some (js ''http://localhost:3000'')" for p
    by (simp add: local_request_def)
  from denied allowed health show ?thesis
    using
      preflight_contract [of default_config "evil_request GET PathImage"
        "Error (js ''Not allowed by CORS'')" env0
        "gateway_of (Resolves stored_asset) (Resolves JNull)" OPTIONS]
      preflight_contract [of default_config "evil_request GET PathImage"
        "Error (js ''Not allowed by CORS'')" env0
        "gateway_of (Resolves stored_asset) (Resolves JNull)" DELETE]
      preflight_contract [of default_config "local_request GET PathImage None JUndefined"
        "Error (js ''Not allowed by CORS'')" env0
        "gateway_of (Resolves stored_asset) (Resolves JNull)" GET]
      preflight_contract [of default_config "local_request GET PathHealth None JUndefined"
        "Error (js ''Not allowed by CORS'')" env0
        "gateway_of (Resolves stored_asset) (Resolves JNull)" GET]
    by (simp add: evil local origin local_origin_nonempty)
qed

text \<open>
  The answer to a pre-flight from the default origin lists OPTIONS besides GET, POST and
  DELETE.
\<close>

theorem preflight_methods_counterexample:
  "fst (app default_config env0 (gateway_of (Resolves stored_asset) (Resolves JNull))
          (local_request OPTIONS PathUpload None JUndefined))
     = PreflightEnd
         \<lparr>allow_origin = Some (js ''http://localhost:3000''),
          allow_methods = [js ''GET'', js ''POST'', js ''DELETE'', js ''OPTIONS''],
          allow_headers = [js ''Content-Type'', js ''Authorization''],
          allow_credentials = False\<rparr>
   \<and> set [js ''GET'', js ''POST'', js ''DELETE'', js ''OPTIONS'']
       \<noteq> {js ''GET'', js ''POST'', js ''DELETE''}"
proof -
  have "js ''OPTIONS'' \<notin> {js ''GET'', js ''POST'', js ''DELETE''}"
    by (simp add: js_def)
  then have "set [js ''GET'', js ''POST'', js ''DELETE'', js ''OPTIONS'']
      \<noteq> {js ''GET'', js ''POST'', js ''DELETE''}"
    by auto
  moreover have "fst (app default_config env0 (gateway_of (Resolves stored_asset) (Resolves JNull))
          (local_request OPTIONS PathUpload None JUndefined))
     = PreflightEnd
         \<lparr>allow_origin = Some (js ''http://localhost:3000''),
          allow_methods = [js ''GET'', js ''POST'', js ''DELETE'', js ''OPTIONS''],
          allow_headers = [js ''Content-Type'', js ''Authorization''],
          allow_credentials = False\<rparr>"
    using local_admitted
    by (simp add: app_def cors_def corsOptions_def local_request_def header_value_def
        local_origin_nonempty)
  ultimately show ?thesis by blast
qed

text \<open>
  C6, as the code has it. The limit given to multer is 10 MiB. An upload from an admitted
  origin whose file is longer ends in the default error handler, which answers 500 for a
  \<open>MulterError\<close>, with the upload handler not entered and no gateway call made. So a file
  that multer hands on, and any file of a request for which the upload handler is
  entered, has at most 10 MiB.
\<close>

theorem oversize_rejected:
  "upload_fileSize = 10 * 2 ^ 20
   \<and> (corsOptions_origin (allowedOrigins cfg) (req_origin req) = Inr True \<and>
        req_method req = POST \<and> req_path req = PathUpload \<and>
        req_file_part req = Some f \<and> 10 * 2 ^ 20 < length (buffer f) \<longrightarrow>
        app cfg e gw req =
          (ErrorPage 500 (MulterError (js ''LIMIT_FILE_SIZE'') (js ''file'')), []))
   \<and> (multer_single upload_fileSize part = Inr (Some f) \<longrightarrow> length (buffer f) \<le> 10 * 2 ^ 20)
   \<and> (req_method req = POST \<and> req_path req = PathUpload \<and> req_file_part req = Some f \<and>
        Enter UploadHandler \<in> set (snd (app cfg e gw req)) \<longrightarrow>
        length (buffer f) \<le> 10 * 2 ^ 20)"
proof -
  have size: "upload_fileSize = 10 * 2 ^ 20"
    by (simp add: upload_fileSize_def)
  have multer: "length (buffer g) \<le> 10 * 2 ^ 20"
    if "multer_single upload_fileSize p = Inr (Some g)" for p g
    using that by (auto simp: multer_single_def size split: option.splits if_splits)
  have big: "app cfg e gw req =
      (ErrorPage 500 (MulterError (js ''LIMIT_FILE_SIZE'') (js ''file'')), [])"
    if "corsOptions_origin (allowedOrigins cfg) (req_origin req) = Inr True"
      and "req_method req = POST" and "req_path req = PathUpload"
      and "req_file_part req = Some f" and "10 * 2 ^ 20 < length (buffer f)"
    using that
    by (simp add: app_def options_all_def cors_def routes_def multer_single_def size
        default_error_handler_def)
  have entered: "length (buffer f) \<le> 10 * 2 ^ 20"
    if "req_method req = POST" and "req_path req = PathUpload" and "req_file_part req = Some f"
      and "Enter UploadHandler \<in> set (snd (app cfg e gw req))"
  proof (rule ccontr)
    assume "\<not> length (buffer f) \<le> 10 * 2 ^ 20"
    then have "upload_fileSize < length (buffer f)" by (simp add: size)
    with that(1-3) have "snd (routes cfg e gw req) = []"
      by (simp add: routes_def multer_single_def default_error_handler_def)
    with app_events [of cfg e gw req] have "snd (app cfg e gw req) = []"
      by auto
    with that(4) show False by simp
  qed
  from size multer big entered show ?thesis by blast
qed

theorem oversize_rejected_witness:
  "10 * 2 ^ 20 < length (buffer big_file)
   \<and> app default_config env0 (gateway_of (Resolves stored_asset) (Resolves JNull))
       (local_request POST PathUpload (Some big_file) JUndefined) =
     (ErrorPage 500 (MulterError (js ''LIMIT_FILE_SIZE'') (js ''file'')), [])
   \<and> multer_single upload_fileSize (Some jpeg_file) = Inr (Some jpeg_file)
   \<and> Enter UploadHandler \<in> set (snd (app default_config env0
         (gateway_of (Resolves stored_asset) (Resolves JNull))
         (local_request POST PathUpload (Some jpeg_file) JUndefined)))
   \<and> length (buffer jpeg_file) \<le> 10 * 2 ^ 20"
proof -
  let ?gw = "gateway_of (Resolves stored_asset) (Resolves JNull)"
  have big: "10 * 2 ^ 20 < length (buffer big_file)"
    by (simp add: big_file_def)
  have fields: "req_method (local_request POST PathUpload part JUndefined) = POST"
    "req_path (local_request POST PathUpload part JUndefined) = PathUpload"
    "req_file_part (local_request POST PathUpload part JUndefined) = part"
    "corsOptions_origin (allowedOrigins default_config)
       (req_origin (local_request POST PathUpload part JUndefined)) = Inr True" for part
    using local_admitted by (simp_all add: local_request_def)
  have small: "multer_single upload_fileSize (Some jpeg_file) = Inr (Some jpeg_file)"
    by (simp add: multer_single_def upload_fileSize_def jpeg_file_def)
  have "app default_config env0 ?gw (local_request POST PathUpload (Some jpeg_file) JUndefined)
      = entered UploadHandler (upload_handler default_config env0 ?gw (Some jpeg_file))"
    by (rule app_upload) (simp_all add: fields small)
  then have run: "Enter UploadHandler \<in> set (snd (app default_config env0 ?gw
      (local_request POST PathUpload (Some jpeg_file) JUndefined)))"
    by (simp add: entered_def)
  from big fields small run show ?thesis
    using
      oversize_rejected [of default_config "local_request POST PathUpload (Some big_file) JUndefined"
        big_file env0 ?gw "Some jpeg_file"]
      oversize_rejected [of default_config "local_request POST PathUpload (Some jpeg_file) JUndefined"
        jpeg_file env0 ?gw "Some jpeg_file"]
    by simp
qed

text \<open>
  A JPEG of 10 MiB and one byte, sent from the default origin, is answered with status
  500, which is no client error.
\<close>

theorem oversize_counterexample:
  "length (buffer big_file) = 10 * 1024 * 1024 + 1
   \<and> fst (app default_config env0 (gateway_of (Resolves stored_asset) (Resolves JNull))
            (local_request POST PathUpload (Some big_file) JUndefined))
       = ErrorPage 500 (MulterError (js ''LIMIT_FILE_SIZE'') (js ''file''))
   \<and> \<not> client_error (fst (app default_config env0
            (gateway_of (Resolves stored_asset) (Resolves JNull))
            (local_request POST PathUpload (Some big_file) JUndefined)))"
proof -
  have len: "length (buffer big_file) = 10 * 1024 * 1024 + 1"
    by (simp add: big_file_def)
  have "fst (app default_config env0 (gateway_of (Resolves stored_asset) (Resolves JNull))
            (local_request POST PathUpload (Some big_file) JUndefined))
       = ErrorPage 500 (MulterError (js ''LIMIT_FILE_SIZE'') (js ''file''))"
    using local_admitted len
    by (simp add: app_def options_all_def cors_def routes_def multer_single_def upload_fileSize_def
        default_error_handler_def local_request_def)
  with len show ?thesis by (simp add: client_error_def)
qed

end
